theory Spec2Isabelle
  imports Complex_Main "HOL-Library.AList"
begin

chapter \<open>The MoE trading system: aggregation, portfolio simulation, metrics, backtest loop\<close>

text \<open>
  A shallow embedding of the decision-aggregation and portfolio-simulation core of the
  repository. Python floats are modelled as \<^typ>\<open>real\<close> (there is no NaN and no rounding, so
  the source's \<^verbatim>\<open>isnan\<close> guards have no counterpart), Python ints as \<^typ>\<open>int\<close>, dictionaries
  as association lists in insertion order (\<^const>\<open>AList.update\<close> keeps the place of an existing
  key and appends a new one, as a Python dict does), and the objects that the simulator
  shares between its ledger and its history live in an explicit store.
\<close>

section \<open>Python and numpy primitives\<close>

datatype py_error = ValueError | ZeroDivisionError | IndexError

text \<open>\<^verbatim>\<open>int(x)\<close> on a float truncates towards zero.\<close>

definition py_int :: "real \<Rightarrow> int" where
  "py_int x = (if 0 \<le> x then \<lfloor>x\<rfloor> else \<lceil>x\<rceil>)"

text \<open>
  \<^verbatim>\<open>numpy.isclose(a, b, atol=atol)\<close> with the default \<^verbatim>\<open>rtol=1e-05\<close>:
  \<^verbatim>\<open>absolute(a - b) <= (atol + rtol * absolute(b))\<close>.
\<close>

definition np_isclose :: "real \<Rightarrow> real \<Rightarrow> real \<Rightarrow> bool" where
  "np_isclose a b atol = (\<bar>a - b\<bar> \<le> atol + (1 / 10 ^ 5) * \<bar>b\<bar>)"


section \<open>core/data\_types.py: signals\<close>

record DecisionProbabilities =
  buy_probability :: real
  hold_probability :: real
  sell_probability :: real

text \<open>
  The dataclass constructor followed by \<^verbatim>\<open>__post_init__\<close>: the only check is on the sum.
\<close>

definition new_DecisionProbabilities :: "real \<Rightarrow> real \<Rightarrow> real \<Rightarrow> py_error + DecisionProbabilities" where
  "new_DecisionProbabilities b h s =
     (let total = b + h + s
      in if \<not> np_isclose total 1 (1 / 10 ^ 6) then Inl ValueError
         else Inr \<lparr>buy_probability = b, hold_probability = h, sell_probability = s\<rparr>)"

definition to_list :: "DecisionProbabilities \<Rightarrow> real list" where
  "to_list p = [buy_probability p, hold_probability p, sell_probability p]"

record ExpertConfidence =
  confidence_score :: real
  uncertainty :: real
  reliability_score :: real

record ExpertMetadata =
  expert_type :: string
  model_name :: string
  processing_time :: real
  input_data_quality :: real

record ExpertOutput =
  probabilities :: DecisionProbabilities
  confidence :: ExpertConfidence
  metadata :: ExpertMetadata

datatype DecisionType = Decision_BUY | Decision_HOLD | Decision_SELL

datatype TradeAction = Trade_BUY | Trade_SELL | Trade_HOLD

datatype PositionStatus = OPEN | CLOSED | PARTIAL

section \<open>aggregation/expert\_aggregator.py\<close>

record ExpertContribution =
  expert_name :: string
  expert_output :: ExpertOutput
  weight :: real
  contribution :: DecisionProbabilities
  contribution_confidence :: real
  contribution_processing_time :: real

text \<open>The wall-clock field \<^verbatim>\<open>processing_time\<close> of the result is left out.\<close>

record AggregationResult =
  final_probabilities :: DecisionProbabilities
  expert_contributions :: "(string \<times> ExpertContribution) list"
  aggregation_method :: string
  gating_weights :: "(string \<times> real) list"
  overall_confidence :: real
  decision_type :: DecisionType
  reasoning :: string

text \<open>
  The entropy term of \<^verbatim>\<open>_calculate_gating_weights\<close>:
  \<^verbatim>\<open>-sum(p * np.log(p + 1e-10) for p in probabilities if p > 0)\<close>.
\<close>

definition entropy :: "real list \<Rightarrow> real" where
  "entropy ps = - sum_list (map (\<lambda>p. p * ln (p + 1 / 10 ^ 10)) (filter (\<lambda>p. 0 < p) ps))"

text \<open>The weight of one expert before normalisation (the body of the loop).\<close>

definition raw_gating_weight :: "ExpertOutput \<Rightarrow> real" where
  "raw_gating_weight output =
     (let confidence_weight = confidence_score (confidence output);
          data_quality_bonus = input_data_quality (metadata output) * 0.4;
          certainty_bonus = (1 - entropy (to_list (probabilities output)) / ln 3) * 0.4;
          weight = confidence_weight + data_quality_bonus + certainty_bonus
      in max 0.1 weight)"

text \<open>The loop itself: it fills the dictionary and accumulates \<^verbatim>\<open>total_weight\<close>.\<close>

fun gating_loop ::
  "(string \<times> ExpertOutput) list \<Rightarrow> (string \<times> real) list \<times> real \<Rightarrow> (string \<times> real) list \<times> real" where
  "gating_loop [] acc = acc"
| "gating_loop ((name, output) # rest) (weights, total_weight) =
     gating_loop rest
       (AList.update name (raw_gating_weight output) weights,
        total_weight + raw_gating_weight output)"

definition calculate_gating_weights :: "(string \<times> ExpertOutput) list \<Rightarrow> (string \<times> real) list" where
  "calculate_gating_weights expert_outputs =
     (let (weights, total_weight) = gating_loop expert_outputs ([], 0)
      in if 0 < total_weight
         then map (\<lambda>(name, weight). (name, weight / total_weight)) weights
         else map (\<lambda>(name, output). (name, 1 / real (length expert_outputs))) expert_outputs)"

text \<open>\<^verbatim>\<open>weights.get(name, 0.0)\<close>\<close>

definition get_weight :: "(string \<times> real) list \<Rightarrow> string \<Rightarrow> real" where
  "get_weight weights name = (case map_of weights name of Some w \<Rightarrow> w | None \<Rightarrow> 0)"

fun aggregate_loop ::
  "(string \<times> real) list \<Rightarrow> (string \<times> ExpertOutput) list \<Rightarrow> real \<times> real \<times> real \<Rightarrow> real \<times> real \<times> real" where
  "aggregate_loop weights [] acc = acc"
| "aggregate_loop weights ((name, output) # rest) (aggregated_buy, aggregated_hold, aggregated_sell) =
     (let weight = get_weight weights name
      in aggregate_loop weights rest
           (aggregated_buy + buy_probability (probabilities output) * weight,
            aggregated_hold + hold_probability (probabilities output) * weight,
            aggregated_sell + sell_probability (probabilities output) * weight))"

definition aggregate_probabilities ::
  "(string \<times> ExpertOutput) list \<Rightarrow> (string \<times> real) list \<Rightarrow> py_error + DecisionProbabilities" where
  "aggregate_probabilities expert_outputs weights =
     (let (aggregated_buy, aggregated_hold, aggregated_sell) =
            aggregate_loop weights expert_outputs (0, 0, 0);
          total = aggregated_buy + aggregated_hold + aggregated_sell
      in if 0 < total
         then new_DecisionProbabilities
                (aggregated_buy / total) (aggregated_hold / total) (aggregated_sell / total)
         else new_DecisionProbabilities aggregated_buy aggregated_hold aggregated_sell)"

definition create_expert_contributions ::
  "(string \<times> ExpertOutput) list \<Rightarrow> (string \<times> real) list \<Rightarrow> (string \<times> ExpertContribution) list" where
  "create_expert_contributions expert_outputs weights =
     foldl (\<lambda>contributions (name, output).
              AList.update name
                \<lparr>expert_name = name, expert_output = output,
                 weight = get_weight weights name,
                 contribution = probabilities output,
                 contribution_confidence = confidence_score (confidence output),
                 contribution_processing_time = processing_time (metadata output)\<rparr>
                contributions)
       [] expert_outputs"

definition determine_decision :: "DecisionProbabilities \<Rightarrow> DecisionType" where
  "determine_decision p =
     (let buy_prob = buy_probability p;
          hold_prob = hold_probability p;
          sell_prob = sell_probability p;
          max_prob = max buy_prob (max hold_prob sell_prob)
      in if max_prob = buy_prob then Decision_BUY
         else if max_prob = sell_prob then Decision_SELL
         else Decision_HOLD)"

definition calculate_overall_confidence :: "(string \<times> ExpertContribution) list \<Rightarrow> real" where
  "calculate_overall_confidence contributions =
     (if contributions = [] then 0
      else
        let (total_confidence, total_weight) =
              foldl (\<lambda>(tc, tw) (name, c). (tc + contribution_confidence c * weight c, tw + weight c))
                (0, 0) contributions
        in if 0 < total_weight then total_confidence / total_weight else 0)"

text \<open>
  The reasoning string is assembled with Python's float formatting and string methods;
  they are parameters of the model: \<open>fmt_f2 x\<close> is \<^verbatim>\<open>f"{x:.2f}"\<close>, \<open>fmt_pct1 x\<close> is
  \<^verbatim>\<open>f"{x:.1%}"\<close>, \<open>str_title\<close> is \<^verbatim>\<open>str.title\<close>, \<open>fmt_nat\<close> prints an index.
\<close>

record py_format =
  fmt_f2 :: "real \<Rightarrow> string"
  fmt_pct1 :: "real \<Rightarrow> string"
  str_title :: "string \<Rightarrow> string"
  fmt_nat :: "nat \<Rightarrow> string"

definition decision_value_upper :: "DecisionType \<Rightarrow> string" where
  "decision_value_upper d =
     (case d of Decision_BUY \<Rightarrow> ''BUY'' | Decision_HOLD \<Rightarrow> ''HOLD'' | Decision_SELL \<Rightarrow> ''SELL'')"

text \<open>\<^verbatim>\<open>" | ".join(parts)\<close>\<close>

fun join_parts :: "string list \<Rightarrow> string" where
  "join_parts [] = []"
| "join_parts [x] = x"
| "join_parts (x # y # ys) = x @ '' | '' @ join_parts (y # ys)"

text \<open>
  \<^verbatim>\<open>sorted(xs, key=..., reverse=True)\<close> is stable: equal keys keep their original order.
\<close>

definition sorted_by_weight_desc :: "ExpertContribution list \<Rightarrow> ExpertContribution list" where
  "sorted_by_weight_desc cs = rev (sort_key weight (rev cs))"

definition generate_reasoning ::
  "py_format \<Rightarrow> (string \<times> ExpertContribution) list \<Rightarrow> DecisionType \<Rightarrow> string" where
  "generate_reasoning fmt contributions decision =
     (if contributions = [] then ''No expert outputs available''
      else
        let sorted_contributions = sorted_by_weight_desc (map snd contributions);
            head_parts = [''Decision: '' @ decision_value_upper decision, ''Top contributing experts:''];
            top_parts =
              map (\<lambda>(i, contrib).
                     ''  '' @ fmt_nat fmt i @ ''. '' @ str_title fmt (expert_name contrib) @ '' ''
                     @ ''(weight: '' @ fmt_f2 fmt (weight contrib) @ '', ''
                     @ ''confidence: '' @ fmt_f2 fmt (contribution_confidence contrib) @ '')'')
                (zip [1 ..< 4] (take 3 sorted_contributions));
            prob_parts =
              (case sorted_contributions of
                 [] \<Rightarrow> []
               | first_contrib # _ \<Rightarrow>
                   let probs = contribution first_contrib
                   in [''Probabilities: Buy '' @ fmt_pct1 fmt (buy_probability probs) @ '', ''
                       @ ''Hold '' @ fmt_pct1 fmt (hold_probability probs) @ '', ''
                       @ ''Sell '' @ fmt_pct1 fmt (sell_probability probs)])
        in join_parts (head_parts @ top_parts @ prob_parts))"

definition create_fallback_result :: "py_error + AggregationResult" where
  "create_fallback_result =
     (case new_DecisionProbabilities 0 1 0 of
        Inl e \<Rightarrow> Inl e
      | Inr p \<Rightarrow>
          Inr \<lparr>final_probabilities = p,
               expert_contributions = [],
               aggregation_method = ''fallback'',
               gating_weights = [],
               overall_confidence = 0.1,
               decision_type = Decision_HOLD,
               reasoning = ''Aggregation failed - using fallback decision''\<rparr>)"

text \<open>
  \<^verbatim>\<open>ExpertAggregator.aggregate_experts\<close> after \<^verbatim>\<open>_run_all_experts\<close> has returned the
  dictionary \<open>expert_outputs\<close> (the experts themselves are external; a failed expert is
  absent from the dictionary). \<open>aggregate_body\<close> is the \<^verbatim>\<open>try\<close> block,
  \<open>aggregate_experts\<close> adds the \<^verbatim>\<open>except Exception\<close> handler.
\<close>

definition aggregate_body :: "py_format \<Rightarrow> (string \<times> ExpertOutput) list \<Rightarrow> py_error + AggregationResult" where
  "aggregate_body fmt expert_outputs =
     (if expert_outputs = [] then create_fallback_result
      else
        let weights = calculate_gating_weights expert_outputs
        in case aggregate_probabilities expert_outputs weights of
             Inl e \<Rightarrow> Inl e
           | Inr final \<Rightarrow>
               let contributions = create_expert_contributions expert_outputs weights;
                   decision = determine_decision final;
                   conf = calculate_overall_confidence contributions;
                   text = generate_reasoning fmt contributions decision
               in Inr \<lparr>final_probabilities = final,
                       expert_contributions = contributions,
                       aggregation_method = ''dynamic_gating'',
                       gating_weights = weights,
                       overall_confidence = conf,
                       decision_type = decision,
                       reasoning = text\<rparr>)"

definition aggregate_experts :: "py_format \<Rightarrow> (string \<times> ExpertOutput) list \<Rightarrow> py_error + AggregationResult" where
  "aggregate_experts fmt expert_outputs =
     (case aggregate_body fmt expert_outputs of
        Inr result \<Rightarrow> Inr result
      | Inl e \<Rightarrow> create_fallback_result)"

section \<open>core/data\_types.py: the ledger's records\<close>

type_synonym datetime = int

text \<open>
  \<^verbatim>\<open>EvaluationPosition\<close> (imported by the simulator as \<^verbatim>\<open>Position\<close>). The wall-clock field
  \<^verbatim>\<open>last_updated\<close> is left out.
\<close>

record Position =
  ticker :: string
  quantity :: int
  avg_price :: real
  current_price :: real
  status :: PositionStatus
  unrealized_pnl :: real
  realized_pnl :: real

text \<open>The constructor call \<^verbatim>\<open>Position(ticker=, quantity=, avg_price=, current_price=)\<close> with its \<^verbatim>\<open>__post_init__\<close>.\<close>

definition new_Position :: "string \<Rightarrow> int \<Rightarrow> real \<Rightarrow> real \<Rightarrow> Position" where
  "new_Position t q ap cp =
     \<lparr>ticker = t, quantity = q, avg_price = ap, current_price = cp, status = OPEN,
      unrealized_pnl = (cp - ap) * real_of_int q, realized_pnl = 0\<rparr>"

definition update_price :: "Position \<Rightarrow> real \<Rightarrow> Position" where
  "update_price p new_price =
     p\<lparr>current_price := new_price,
       unrealized_pnl := (new_price - avg_price p) * real_of_int (quantity p)\<rparr>"

text \<open>\<^verbatim>\<open>total_cost / self.quantity\<close> raises when the new quantity is zero.\<close>

definition add_quantity :: "Position \<Rightarrow> int \<Rightarrow> real \<Rightarrow> py_error + Position" where
  "add_quantity p q price =
     (let total_cost = real_of_int (quantity p) * avg_price p + real_of_int q * price;
          p1 = p\<lparr>quantity := quantity p + q\<rparr>
      in if quantity p1 = 0 then Inl ZeroDivisionError
         else
           let p2 = p1\<lparr>avg_price := total_cost / real_of_int (quantity p1)\<rparr>
           in Inr (update_price p2 (current_price p2)))"

definition reduce_quantity :: "Position \<Rightarrow> int \<Rightarrow> real \<Rightarrow> Position" where
  "reduce_quantity p q price =
     (let p1 =
            (if quantity p \<le> q
             then p\<lparr>realized_pnl := realized_pnl p + (price - avg_price p) * real_of_int (quantity p),
                    quantity := 0, status := CLOSED\<rparr>
             else p\<lparr>realized_pnl := realized_pnl p + (price - avg_price p) * real_of_int q,
                    quantity := quantity p - q, status := PARTIAL\<rparr>)
      in update_price p1 price)"

text \<open>
  The store. A Python dictionary of positions is an object, and so is every
  \<^verbatim>\<open>Position\<close>: a \<^verbatim>\<open>PortfolioState\<close> holds a reference to a dictionary, the dictionary
  holds references to positions. \<open>dicts\<close> maps the address of a dictionary to its items in
  insertion order, \<open>objs\<close> maps the address of a position to its fields.
\<close>

type_synonym addr = nat

record store =
  dicts :: "addr \<Rightarrow> (string \<times> addr) list"
  objs :: "addr \<Rightarrow> Position"
  next_dict :: addr
  next_obj :: addr

definition empty_store :: store where
  "empty_store = \<lparr>dicts = (\<lambda>_. []), objs = (\<lambda>_. new_Position [] 0 0 0), next_dict = 0, next_obj = 0\<rparr>"

definition alloc_dict :: "store \<Rightarrow> (string \<times> addr) list \<Rightarrow> addr \<times> store" where
  "alloc_dict h items =
     (next_dict h, h\<lparr>dicts := (dicts h)(next_dict h := items), next_dict := Suc (next_dict h)\<rparr>)"

definition alloc_obj :: "store \<Rightarrow> Position \<Rightarrow> addr \<times> store" where
  "alloc_obj h p =
     (next_obj h, h\<lparr>objs := (objs h)(next_obj h := p), next_obj := Suc (next_obj h)\<rparr>)"

text \<open>\<^verbatim>\<open>positions.values()\<close>, read through the store.\<close>

definition dict_values :: "store \<Rightarrow> addr \<Rightarrow> Position list" where
  "dict_values h d = map (\<lambda>(t, a). objs h a) (dicts h d)"

text \<open>\<^verbatim>\<open>sum(pos.quantity * pos.current_price for pos in positions.values())\<close>\<close>

definition positions_value :: "store \<Rightarrow> addr \<Rightarrow> real" where
  "positions_value h d =
     sum_list (map (\<lambda>pos. real_of_int (quantity pos) * current_price pos) (dict_values h d))"

text \<open>\<^verbatim>\<open>EvaluationPortfolioState\<close>; the field \<open>ps_positions\<close> is the reference it was given.\<close>

record PortfolioState =
  ps_total_value :: real
  ps_cash :: real
  ps_positions :: addr
  ps_date :: datetime
  ps_daily_return :: real
  ps_total_pnl :: real
  ps_cash_reserve :: real
  ps_available_capital :: real

text \<open>The dataclass constructor with \<^verbatim>\<open>__post_init__\<close> (both derived values are recomputed).\<close>

definition new_PortfolioState :: "store \<Rightarrow> real \<Rightarrow> real \<Rightarrow> addr \<Rightarrow> datetime \<Rightarrow> real \<Rightarrow> PortfolioState" where
  "new_PortfolioState h total_value cash positions date daily_return =
     (let unrealized = sum_list (map unrealized_pnl (dict_values h positions));
          realized = sum_list (map realized_pnl (dict_values h positions))
      in \<lparr>ps_total_value = cash + positions_value h positions,
          ps_cash = cash,
          ps_positions = positions,
          ps_date = date,
          ps_daily_return = daily_return,
          ps_total_pnl = unrealized + realized,
          ps_cash_reserve = 0,
          ps_available_capital = 0\<rparr>)"

definition create_evaluation_portfolio_state :: "store \<Rightarrow> real \<Rightarrow> addr \<Rightarrow> datetime \<Rightarrow> real \<Rightarrow> PortfolioState" where
  "create_evaluation_portfolio_state h cash positions date daily_return =
     new_PortfolioState h (cash + positions_value h positions) cash positions date daily_return"

text \<open>
  Messages carry formatted numbers in the source; the model keeps the numbers.
  \<open>Insufficient_cash required available\<close>, \<open>Partial_execution quantity\<close>,
  \<open>Cannot_execute_buy message\<close>, \<open>No_position ticker\<close>, \<open>Partial_sell quantity\<close>.
\<close>

datatype message =
    Sufficient_cash
  | Insufficient_cash real real
  | Partial_execution int
  | Cannot_execute_buy message
  | No_position string
  | Partial_sell int
  | Full_sell

text \<open>\<^verbatim>\<open>TradeRecord\<close>; the pass-through payload \<^verbatim>\<open>expert_outputs\<close> is left out.\<close>

record TradeRecord =
  tr_date :: datetime
  tr_ticker :: string
  tr_action :: TradeAction
  tr_quantity :: int
  tr_price :: real
  tr_value :: real
  tr_transaction_cost :: real
  tr_slippage :: real
  tr_total_cost :: real
  tr_confidence :: real
  tr_reasoning :: string
  tr_portfolio_state_before :: PortfolioState
  tr_portfolio_state_after :: PortfolioState
  tr_success :: bool
  tr_error_message :: "message option"

text \<open>
  \<^verbatim>\<open>create_trade_record\<close>: the simulator never passes \<^verbatim>\<open>transaction_cost\<close> or
  \<^verbatim>\<open>slippage\<close>, so the record carries the defaults 0.001 and 0.0005.
\<close>

definition create_trade_record ::
  "datetime \<Rightarrow> string \<Rightarrow> TradeAction \<Rightarrow> int \<Rightarrow> real \<Rightarrow> real \<Rightarrow> string \<Rightarrow>
   PortfolioState \<Rightarrow> PortfolioState \<Rightarrow> bool \<Rightarrow> message option \<Rightarrow> TradeRecord" where
  "create_trade_record date t action q price conf text state_before state_after success error_message =
     (let v = real_of_int q * price
      in \<lparr>tr_date = date, tr_ticker = t, tr_action = action, tr_quantity = q, tr_price = price,
          tr_value = v, tr_transaction_cost = 0.001, tr_slippage = 0.0005,
          tr_total_cost = v + 0.001 + 0.0005,
          tr_confidence = conf, tr_reasoning = text,
          tr_portfolio_state_before = state_before, tr_portfolio_state_after = state_after,
          tr_success = success, tr_error_message = error_message\<rparr>)"

record PortfolioSimulatorConfig =
  initial_capital :: real
  position_sizing :: real
  max_positions :: int
  cash_reserve :: real
  min_cash_reserve :: real
  transaction_cost :: real
  slippage :: real
  enable_short_selling :: bool
  enable_margin :: bool
  max_position_size :: real

text \<open>The dataclass defaults.\<close>

definition default_config :: PortfolioSimulatorConfig where
  "default_config =
     \<lparr>initial_capital = 100000, position_sizing = 0.08, max_positions = 10,
      cash_reserve = 0.2, min_cash_reserve = 0.1, transaction_cost = 0.001,
      slippage = 0.0005, enable_short_selling = False, enable_margin = False,
      max_position_size = 0.25\<rparr>"

section \<open>evaluation/portfolio\_simulator.py\<close>

record PortfolioSimulator =
  config :: PortfolioSimulatorConfig
  sim_initial_capital :: real
  cash :: real
  positions :: addr
  trade_history :: "TradeRecord list"
  portfolio_history :: "PortfolioState list"
  current_state :: PortfolioState

text \<open>The simulator together with the store its references point into.\<close>

type_synonym world = "PortfolioSimulator \<times> store"

text \<open>\<^verbatim>\<open>__init__\<close>; \<open>now\<close> is \<^verbatim>\<open>datetime.now()\<close>.\<close>

definition new_PortfolioSimulator :: "store \<Rightarrow> PortfolioSimulatorConfig \<Rightarrow> datetime \<Rightarrow> world" where
  "new_PortfolioSimulator h cfg now =
     (let (d, h1) = alloc_dict h [];
          st = create_evaluation_portfolio_state h1 (initial_capital cfg) d now 0
      in (\<lparr>config = cfg,
           sim_initial_capital = initial_capital cfg,
           cash = initial_capital cfg,
           positions = d,
           trade_history = [],
           portfolio_history = [],
           current_state = st\<lparr>ps_total_value := initial_capital cfg\<rparr>\<rparr>, h1))"

text \<open>\<^verbatim>\<open>reset\<close>: \<^verbatim>\<open>dict.copy()\<close> is shallow, the new dictionary refers to the same positions.\<close>

definition reset :: "world \<Rightarrow> PortfolioState \<Rightarrow> world" where
  "reset w initial_state =
     (let (sim, h) = w;
          (d, h1) = alloc_dict h (dicts h (ps_positions initial_state))
      in (sim\<lparr>cash := ps_cash initial_state,
              positions := d,
              current_state := initial_state,
              portfolio_history := [initial_state],
              trade_history := []\<rparr>, h1))"

definition calculate_position_size :: "PortfolioSimulator \<Rightarrow> real \<Rightarrow> real \<Rightarrow> int" where
  "calculate_position_size sim price conf =
     (if price \<le> 0 then 0
      else
        let base_size = ps_total_value (current_state sim) * position_sizing (config sim);
            confidence_multiplier = 0.5 + conf * 0.5;
            adjusted_size = base_size * confidence_multiplier;
            shares = py_int (adjusted_size / price);
            max_position_value = ps_total_value (current_state sim) * max_position_size (config sim);
            max_shares = py_int (max_position_value / price);
            shares = min shares max_shares;
            min_position_value = ps_total_value (current_state sim) * 0.01;
            min_shares = max 1 (py_int (min_position_value / price));
            shares = max shares min_shares
        in shares)"

definition check_cash_availability :: "PortfolioSimulator \<Rightarrow> real \<Rightarrow> bool \<times> real \<times> message" where
  "check_cash_availability sim required_cash =
     (let required_reserve = ps_total_value (current_state sim) * min_cash_reserve (config sim);
          available_cash = cash sim - required_reserve
      in if required_cash \<le> available_cash
         then (True, available_cash, Sufficient_cash)
         else (False, available_cash, Insufficient_cash required_cash available_cash))"

definition update_portfolio_state :: "world \<Rightarrow> datetime \<Rightarrow> world" where
  "update_portfolio_state w date =
     (let (sim, h) = w;
          reserve = ps_total_value (current_state sim) * cash_reserve (config sim);
          available_capital = cash sim - reserve;
          daily_return =
            (if portfolio_history sim \<noteq> [] then
               let prev_value = ps_total_value (last (portfolio_history sim))
               in if 0 < prev_value
                  then (ps_total_value (current_state sim) - prev_value) / prev_value
                  else 0
             else 0);
          st = (create_evaluation_portfolio_state h (cash sim) (positions sim) date daily_return)
                 \<lparr>ps_cash_reserve := reserve, ps_available_capital := available_capital\<rparr>
      in (sim\<lparr>current_state := st, portfolio_history := portfolio_history sim @ [st]\<rparr>, h))"

text \<open>
  The second half of \<^verbatim>\<open>_execute_buy\<close> (from \<^verbatim>\<open>self.cash -= total_cost\<close> on), run with
  the quantity that was settled on; \<open>partial\<close> is the message of a partial execution, if any.
\<close>

definition execute_buy_commit ::
  "world \<Rightarrow> string \<Rightarrow> int \<Rightarrow> real \<Rightarrow> real \<Rightarrow> string \<Rightarrow> datetime \<Rightarrow> PortfolioState \<Rightarrow> message option \<Rightarrow>
   py_error + (TradeRecord \<times> world)" where
  "execute_buy_commit w t q price conf text date state_before partial =
     (let (sim, h) = w;
          trade_value = real_of_int q * price;
          cost = trade_value * transaction_cost (config sim);
          slip = trade_value * slippage (config sim);
          total_cost = trade_value + cost + slip;
          sim1 = sim\<lparr>cash := cash sim - total_cost\<rparr>;
          stored =
            (case map_of (dicts h (positions sim1)) t of
               Some a \<Rightarrow>
                 (case add_quantity (objs h a) q price of
                    Inl e \<Rightarrow> Inl e
                  | Inr p \<Rightarrow> Inr (h\<lparr>objs := (objs h)(a := p)\<rparr>))
             | None \<Rightarrow>
                 let (a, h1) = alloc_obj h (new_Position t q price price)
                 in Inr (h1\<lparr>dicts := (dicts h1)(positions sim1 :=
                              AList.update t a (dicts h1 (positions sim1)))\<rparr>))
      in case stored of
           Inl e \<Rightarrow> Inl e
         | Inr h2 \<Rightarrow>
             let (sim2, h3) = update_portfolio_state (sim1, h2) date;
                 trade_record =
                   create_trade_record date t Trade_BUY q price conf text state_before
                     (current_state sim2) True partial
             in Inr (trade_record, (sim2\<lparr>trade_history := trade_history sim2 @ [trade_record]\<rparr>, h3)))"

definition execute_buy ::
  "world \<Rightarrow> string \<Rightarrow> int \<Rightarrow> real \<Rightarrow> real \<Rightarrow> string \<Rightarrow> datetime \<Rightarrow> PortfolioState \<Rightarrow>
   py_error + (TradeRecord \<times> world)" where
  "execute_buy w t q price conf text date state_before =
     (let (sim, h) = w;
          trade_value = real_of_int q * price;
          cost = trade_value * transaction_cost (config sim);
          slip = trade_value * slippage (config sim);
          total_cost = trade_value + cost + slip;
          (is_available, available_cash, msg) = check_cash_availability sim total_cost
      in if \<not> is_available then
           let denominator = price * (1 + transaction_cost (config sim) + slippage (config sim));
               max_quantity = (if 0 < denominator then py_int (available_cash / denominator) else 0)
           in if 0 < max_quantity
              then execute_buy_commit w t max_quantity price conf text date state_before
                     (Some (Partial_execution max_quantity))
              else Inr (create_trade_record date t Trade_BUY 0 price conf text state_before
                          (current_state sim) False (Some (Cannot_execute_buy msg)), w)
         else execute_buy_commit w t q price conf text date state_before None)"

text \<open>
  The second half of \<^verbatim>\<open>_execute_sell\<close> (from \<^verbatim>\<open>trade_value = quantity * price\<close> on), run
  with the quantity that was settled on for the position at address \<open>a\<close>.
\<close>

definition execute_sell_commit ::
  "world \<Rightarrow> string \<Rightarrow> addr \<Rightarrow> int \<Rightarrow> message \<Rightarrow> real \<Rightarrow> real \<Rightarrow> string \<Rightarrow> datetime \<Rightarrow>
   PortfolioState \<Rightarrow> TradeRecord \<times> world" where
  "execute_sell_commit w t a q msg price conf text date state_before =
     (let (sim, h) = w;
          trade_value = real_of_int q * price;
          cost = trade_value * transaction_cost (config sim);
          slip = trade_value * slippage (config sim);
          net_proceeds = trade_value - cost - slip;
          sim1 = sim\<lparr>cash := cash sim + net_proceeds\<rparr>;
          position1 = reduce_quantity (objs h a) q price;
          h1 = h\<lparr>objs := (objs h)(a := position1)\<rparr>;
          h2 = (if quantity position1 = 0
                then h1\<lparr>dicts := (dicts h1)(positions sim1 :=
                          AList.delete t (dicts h1 (positions sim1)))\<rparr>
                else h1);
          (sim2, h3) = update_portfolio_state (sim1, h2) date;
          trade_record =
            create_trade_record date t Trade_SELL q price conf text state_before
              (current_state sim2) True
              (case msg of Partial_sell n \<Rightarrow> Some msg | _ \<Rightarrow> None)
      in (trade_record, (sim2\<lparr>trade_history := trade_history sim2 @ [trade_record]\<rparr>, h3)))"

definition execute_sell ::
  "world \<Rightarrow> string \<Rightarrow> int \<Rightarrow> real \<Rightarrow> real \<Rightarrow> string \<Rightarrow> datetime \<Rightarrow> PortfolioState \<Rightarrow>
   TradeRecord \<times> world" where
  "execute_sell w t q0 price conf text date state_before =
     (let (sim, h) = w
      in case map_of (dicts h (positions sim)) t of
           None \<Rightarrow>
             (create_trade_record date t Trade_SELL 0 price conf text state_before
                (current_state sim) False (Some (No_position t)), w)
         | Some a \<Rightarrow>
             let position = objs h a;
                 available_quantity = quantity position
             in if available_quantity < q0
                then execute_sell_commit w t a available_quantity (Partial_sell available_quantity)
                       price conf text date state_before
                else execute_sell_commit w t a q0 Full_sell price conf text date state_before)"

definition execute_trade ::
  "world \<Rightarrow> string \<Rightarrow> TradeAction \<Rightarrow> real \<Rightarrow> real \<Rightarrow> string \<Rightarrow> datetime \<Rightarrow>
   py_error + (TradeRecord \<times> world)" where
  "execute_trade w t action price conf text date =
     (let (sim, h) = w;
          portfolio_state_before = current_state sim
      in if action = Trade_HOLD
         then Inr (create_trade_record date t action 0 price conf text portfolio_state_before
                     (current_state sim) True None, w)
         else
           let q = calculate_position_size sim price conf
           in if action = Trade_BUY
              then execute_buy w t q price conf text date portfolio_state_before
              else Inr (execute_sell w t q price conf text date portfolio_state_before))"

text \<open>\<^verbatim>\<open>update_prices\<close>: the loop over \<^verbatim>\<open>price_updates.items()\<close>, then the snapshot.\<close>

fun update_prices_loop :: "PortfolioSimulator \<Rightarrow> store \<Rightarrow> (string \<times> real) list \<Rightarrow> store" where
  "update_prices_loop sim h [] = h"
| "update_prices_loop sim h ((t, new_price) # rest) =
     (if new_price \<le> 0 then update_prices_loop sim h rest
      else
        case map_of (dicts h (positions sim)) t of
          Some a \<Rightarrow>
            update_prices_loop sim (h\<lparr>objs := (objs h)(a := update_price (objs h a) new_price)\<rparr>) rest
        | None \<Rightarrow> update_prices_loop sim h rest)"

definition update_prices :: "world \<Rightarrow> (string \<times> real) list \<Rightarrow> datetime \<Rightarrow> world" where
  "update_prices w price_updates date =
     (let (sim, h) = w
      in update_portfolio_state (sim, update_prices_loop sim h price_updates) date)"

text \<open>One call of \<^verbatim>\<open>execute_trade\<close> as data, and a sequence of calls run in order.\<close>

record TradeCall =
  call_ticker :: string
  call_action :: TradeAction
  call_price :: real
  call_confidence :: real
  call_reasoning :: string
  call_date :: datetime

definition execute_call :: "world \<Rightarrow> TradeCall \<Rightarrow> py_error + (TradeRecord \<times> world)" where
  "execute_call w c =
     execute_trade w (call_ticker c) (call_action c) (call_price c) (call_confidence c)
       (call_reasoning c) (call_date c)"

text \<open>
  The worlds after each call, in order; an exception ends the run (the list is then
  shorter than the list of calls).
\<close>

fun run_trades :: "world \<Rightarrow> TradeCall list \<Rightarrow> world list" where
  "run_trades w [] = []"
| "run_trades w (c # cs) =
     (case execute_call w c of
        Inl e \<Rightarrow> []
      | Inr (r, w1) \<Rightarrow> w1 # run_trades w1 cs)"

text \<open>What a reader of a snapshot sees: its own fields and the positions its reference leads to.\<close>

definition snapshot_positions :: "store \<Rightarrow> PortfolioState \<Rightarrow> (string \<times> Position) list" where
  "snapshot_positions h st = map (\<lambda>(t, a). (t, objs h a)) (dicts h (ps_positions st))"

section \<open>evaluation/backtester.py: the days and tickers the loop visits\<close>

text \<open>
  A loaded price series: the index of the data frame (its dates) with the \<^verbatim>\<open>close\<close> column;
  \<open>None\<close> is a missing value (NaN). \<open>load\<close> stands for \<^verbatim>\<open>load_prices_for_ticker\<close>, which
  returns \<^verbatim>\<open>None\<close> when a ticker cannot be loaded.
\<close>

type_synonym price_series = "(datetime \<times> real option) list"

record BacktesterConfig =
  start_date :: datetime
  end_date :: datetime
  tickers :: "string list"

text \<open>The loading loop; \<open>None\<close> is the early \<^verbatim>\<open>return None\<close>.\<close>

fun load_price_data ::
  "(string \<Rightarrow> price_series option) \<Rightarrow> string list \<Rightarrow> (string \<times> price_series) list \<Rightarrow>
   (string \<times> price_series) list option" where
  "load_price_data load [] price_data = Some price_data"
| "load_price_data load (t # ts) price_data =
     (case load t of
        Some data \<Rightarrow> load_price_data load ts (AList.update t data price_data)
      | None \<Rightarrow> None)"

text \<open>
  \<^verbatim>\<open>all_dates = set(); for ticker_data in ...: all_dates.update(ticker_data.index)\<close>, then
  \<^verbatim>\<open>sorted(list(all_dates))\<close> filtered to the configured range.
\<close>

definition all_dates :: "(string \<times> price_series) list \<Rightarrow> datetime list" where
  "all_dates price_data = remdups (concat (map (\<lambda>(t, ticker_data). map fst ticker_data) price_data))"

definition trading_dates :: "BacktesterConfig \<Rightarrow> (string \<times> price_series) list \<Rightarrow> datetime list" where
  "trading_dates cfg price_data =
     filter (\<lambda>d. start_date cfg \<le> d \<and> d \<le> end_date cfg) (sort (all_dates price_data))"

text \<open>What the loop does, in order.\<close>

datatype step =
    Process_ticker string datetime real
  | Daily_metrics datetime

text \<open>The inner loop over \<^verbatim>\<open>self.config.tickers\<close> for one day.\<close>

fun process_tickers :: "(string \<times> price_series) list \<Rightarrow> datetime \<Rightarrow> string list \<Rightarrow> step list" where
  "process_tickers price_data current_date [] = []"
| "process_tickers price_data current_date (t # ts) =
     (case map_of price_data t of
        None \<Rightarrow> process_tickers price_data current_date ts
      | Some series \<Rightarrow>
          (case map_of series current_date of
             None \<Rightarrow> process_tickers price_data current_date ts
           | Some None \<Rightarrow> process_tickers price_data current_date ts
           | Some (Some close_price) \<Rightarrow>
               if 0 < close_price
               then Process_ticker t current_date close_price # process_tickers price_data current_date ts
               else process_tickers price_data current_date ts))"

fun process_days :: "BacktesterConfig \<Rightarrow> (string \<times> price_series) list \<Rightarrow> datetime list \<Rightarrow> step list" where
  "process_days cfg price_data [] = []"
| "process_days cfg price_data (current_date # rest) =
     process_tickers price_data current_date (tickers cfg) @ [Daily_metrics current_date]
     @ process_days cfg price_data rest"

text \<open>
  \<^verbatim>\<open>run_backtest\<close> up to the end of the daily loop: \<open>Inr None\<close> is \<^verbatim>\<open>return None\<close>,
  \<open>Inl IndexError\<close> is \<^verbatim>\<open>trading_dates[0]\<close> on an empty list (logged and raised again).
\<close>

definition run_backtest_steps ::
  "(string \<Rightarrow> price_series option) \<Rightarrow> BacktesterConfig \<Rightarrow> py_error + step list option" where
  "run_backtest_steps load cfg =
     (case load_price_data load (tickers cfg) [] of
        None \<Rightarrow> Inr None
      | Some price_data \<Rightarrow>
          let days = trading_dates cfg price_data
          in if days = [] then Inl IndexError
             else Inr (Some (process_days cfg price_data days)))"

section \<open>evaluation/metrics.py: trade metrics\<close>







text \<open>
  The return list that \<^verbatim>\<open>_calculate_ticker_trading_metrics\<close> builds from the successful
  buys and sells of one ticker.
\<close>

definition ticker_trade_returns :: "TradeRecord list \<Rightarrow> real list" where
  "ticker_trade_returns ticker_trades =
     (let buy_trades = filter (\<lambda>t. tr_action t = Trade_BUY \<and> tr_success t) ticker_trades;
          sell_trades = filter (\<lambda>t. tr_action t = Trade_SELL \<and> tr_success t) ticker_trades
      in if buy_trades \<noteq> [] \<and> sell_trades \<noteq> [] then
           let total_buy_value = sum_list (map tr_value buy_trades);
               total_sell_value = sum_list (map tr_value sell_trades)
           in if 0 < total_buy_value
              then replicate (length sell_trades) ((total_sell_value - total_buy_value) / total_buy_value)
              else []
         else if buy_trades \<noteq> [] then replicate (length buy_trades) (- 0.001)
         else [])"



section \<open>Definitions used to state the properties\<close>

text \<open>The probability that a decision selects.\<close>

definition prob_of :: "DecisionProbabilities \<Rightarrow> DecisionType \<Rightarrow> real" where
  "prob_of p d =
     (case d of
        Decision_BUY \<Rightarrow> buy_probability p
      | Decision_HOLD \<Rightarrow> hold_probability p
      | Decision_SELL \<Rightarrow> sell_probability p)"






text \<open>Concrete inputs of the examples.\<close>

definition plain_format :: py_format where
  "plain_format =
     \<lparr>fmt_f2 = (\<lambda>x. []), fmt_pct1 = (\<lambda>x. []), str_title = (\<lambda>s. s), fmt_nat = (\<lambda>n. [])\<rparr>"


definition default_world :: world where
  "default_world = new_PortfolioSimulator empty_store default_config 0"


text \<open>Two price series: the second one lacks day 2.\<close>

definition example_load :: "string \<Rightarrow> price_series option" where
  "example_load t =
     (if t = ''aa'' then Some [(1, Some 10), (2, Some 11)]
      else if t = ''bb'' then Some [(1, Some 20)]
      else None)"

definition example_backtest :: BacktesterConfig where
  "example_backtest = \<lparr>start_date = 1, end_date = 2, tickers = [''aa'', ''bb'']\<rparr>"












text \<open>A buy at 50 and a sell at 60 with confidence 0.8, and the worlds they lead to.\<close>

definition buy_aa :: TradeCall where
  "buy_aa = \<lparr>call_ticker = ''aa'', call_action = Trade_BUY, call_price = 50, call_confidence = 0.8,
             call_reasoning = [], call_date = 1\<rparr>"


definition world_after_buy :: world where
  "world_after_buy = hd (run_trades default_world [buy_aa])"

definition first_snapshot :: PortfolioState where
  "first_snapshot = hd (portfolio_history (fst world_after_buy))"

definition world_after_update :: world where
  "world_after_update = update_prices world_after_buy [(''aa'', 60)] 2"

definition world_after_second_buy :: world where
  "world_after_second_buy = hd (run_trades world_after_buy [buy_aa])"

definition position_aa :: "int \<Rightarrow> real \<Rightarrow> real \<Rightarrow> Position" where
  "position_aa q cp pnl =
     \<lparr>ticker = ''aa'', quantity = q, avg_price = 50, current_price = cp, status = OPEN,
      unrealized_pnl = pnl, realized_pnl = 0\<rparr>"

definition state_after_buy :: PortfolioState where
  "state_after_buy =
     \<lparr>ps_total_value = 499946 / 5, ps_cash = 463946 / 5, ps_positions = 0, ps_date = 1,
      ps_daily_return = 0, ps_total_pnl = 0, ps_cash_reserve = 20000,
      ps_available_capital = 363946 / 5\<rparr>"

definition record_of_buy :: TradeRecord where
  "record_of_buy =
     \<lparr>tr_date = 1, tr_ticker = ''aa'', tr_action = Trade_BUY, tr_quantity = 144, tr_price = 50,
      tr_value = 7200, tr_transaction_cost = 0.001, tr_slippage = 0.0005,
      tr_total_cost = 7200 + 0.001 + 0.0005, tr_confidence = 0.8, tr_reasoning = [],
      tr_portfolio_state_before =
        \<lparr>ps_total_value = 100000, ps_cash = 100000, ps_positions = 0, ps_date = 0,
         ps_daily_return = 0, ps_total_pnl = 0, ps_cash_reserve = 0, ps_available_capital = 0\<rparr>,
      tr_portfolio_state_after = state_after_buy, tr_success = True, tr_error_message = None\<rparr>"



section \<open>The decision rule\<close>

lemma Max_of_three: "Max {a, b, c :: real} = max a (max b c)"
  by simp

text \<open>
  Claim C3. The decision is the argmax of (buy, hold, sell) with ties broken in the order
  buy, sell, hold: BUY exactly when buy equals the maximum, SELL exactly when buy does not
  and sell does, HOLD otherwise; the selected probability is always the maximum.
\<close>

theorem determine_decision_argmax_tiebreak:
  "(determine_decision p = Decision_BUY \<longleftrightarrow>
      buy_probability p = Max {buy_probability p, hold_probability p, sell_probability p})
   \<and> (determine_decision p = Decision_SELL \<longleftrightarrow>
      buy_probability p \<noteq> Max {buy_probability p, hold_probability p, sell_probability p}
      \<and> sell_probability p = Max {buy_probability p, hold_probability p, sell_probability p})
   \<and> (determine_decision p = Decision_HOLD \<longleftrightarrow>
      buy_probability p \<noteq> Max {buy_probability p, hold_probability p, sell_probability p}
      \<and> sell_probability p \<noteq> Max {buy_probability p, hold_probability p, sell_probability p})
   \<and> prob_of p (determine_decision p) =
       Max {buy_probability p, hold_probability p, sell_probability p}"
  unfolding Max_of_three determine_decision_def prob_of_def Let_def
  by (auto simp: max_def)

text \<open>Exact ties: buy = sell wins for BUY, hold = sell wins for SELL; a strict hold maximum is HOLD.\<close>

theorem determine_decision_tie_witness:
  "determine_decision \<lparr>buy_probability = 0.4, hold_probability = 0.2, sell_probability = 0.4\<rparr>
     = Decision_BUY
   \<and> determine_decision \<lparr>buy_probability = 0.2, hold_probability = 0.4, sell_probability = 0.4\<rparr>
     = Decision_SELL
   \<and> determine_decision \<lparr>buy_probability = 0.2, hold_probability = 0.6, sell_probability = 0.2\<rparr>
     = Decision_HOLD"
  using determine_decision_argmax_tiebreak
      [of "\<lparr>buy_probability = 0.4, hold_probability = 0.2, sell_probability = 0.4\<rparr>"]
    determine_decision_argmax_tiebreak
      [of "\<lparr>buy_probability = 0.2, hold_probability = 0.4, sell_probability = 0.4\<rparr>"]
    determine_decision_argmax_tiebreak
      [of "\<lparr>buy_probability = 0.2, hold_probability = 0.6, sell_probability = 0.2\<rparr>"]
  by simp

section \<open>Constructing a signal vector\<close>




section \<open>Aggregation without experts\<close>

lemma create_fallback_result_ok: "\<exists>r. create_fallback_result = Inr r"
  by (simp add: create_fallback_result_def new_DecisionProbabilities_def np_isclose_def Let_def)

text \<open>Whatever the experts returned, the aggregator returns a result: the handler catches the rest.\<close>

lemma aggregate_experts_never_raises: "\<exists>r. aggregate_experts fmt expert_outputs = Inr r"
  using create_fallback_result_ok
  by (auto simp: aggregate_experts_def split: sum.splits)

text \<open>
  Claim C2, as the code has it. With no expert output the aggregator returns (it does not
  raise) the hard-coded fallback: probabilities (0, 1, 0), decision HOLD, confidence 0.1,
  no contributions, no weights, and the reasoning text
  "Aggregation failed - using fallback decision".
\<close>

theorem aggregate_experts_no_experts:
  "aggregate_experts fmt [] =
     Inr \<lparr>final_probabilities =
            \<lparr>buy_probability = 0, hold_probability = 1, sell_probability = 0\<rparr>,
          expert_contributions = [],
          aggregation_method = ''fallback'',
          gating_weights = [],
          overall_confidence = 0.1,
          decision_type = Decision_HOLD,
          reasoning = ''Aggregation failed - using fallback decision''\<rparr>"
  by (simp add: aggregate_experts_def aggregate_body_def create_fallback_result_def
      new_DecisionProbabilities_def np_isclose_def Let_def)

text \<open>With any formatter, here the plain one: decision HOLD, confidence 0.1.\<close>

theorem aggregate_experts_no_experts_witness:
  "map_sum id decision_type (aggregate_experts plain_format []) = Inr Decision_HOLD
   \<and> map_sum id overall_confidence (aggregate_experts plain_format []) = Inr 0.1"
  using aggregate_experts_no_experts [of plain_format]
  by simp

text \<open>Claim C2 as stated fails on the text: the reasoning is not the string "aggregation failed".\<close>

theorem aggregate_experts_reasoning_counterexample:
  "map_sum id reasoning (aggregate_experts plain_format []) \<noteq> Inr ''aggregation failed''"
  by (simp add: aggregate_experts_def aggregate_body_def create_fallback_result_def
      new_DecisionProbabilities_def np_isclose_def Let_def)

section \<open>Position sizing\<close>










section \<open>Gating weights\<close>










section \<open>The days and tickers of the backtest loop\<close>

lemma load_price_data_Some:
  "load_price_data load ts acc = Some pd \<Longrightarrow> distinct (map fst acc) \<Longrightarrow>
   distinct (map fst pd)
   \<and> (\<forall>t. map_of pd t = (if t \<in> set ts then load t else map_of acc t))"
proof (induction ts arbitrary: acc)
  case Nil
  then show ?case by simp
next
  case (Cons t ts)
  from Cons.prems(1) obtain data where l: "load t = Some data"
    and r: "load_price_data load ts (AList.update t data acc) = Some pd"
    by (auto split: option.splits)
  have d: "distinct (map fst (AList.update t data acc))"
    using Cons.prems(2) by (rule AList.distinct_update)
  from Cons.IH [OF r d] l show ?case
    by (auto simp: AList.update_conv')
qed

lemma set_all_dates:
  "set (all_dates pd) = (\<Union>(t, series) \<in> set pd. fst ` set series)"
  by (auto simp: all_dates_def)

lemma all_dates_map_of:
  assumes "distinct (map fst pd)"
  shows "d \<in> set (all_dates pd) \<longleftrightarrow> (\<exists>t series. map_of pd t = Some series \<and> d \<in> fst ` set series)"
proof -
  have m: "\<And>t series. map_of pd t = Some series \<longleftrightarrow> (t, series) \<in> set pd"
    using assms by (simp add: map_of_eq_Some_iff)
  have "d \<in> set (all_dates pd) \<longleftrightarrow> (\<exists>t series. (t, series) \<in> set pd \<and> d \<in> fst ` set series)"
    unfolding set_all_dates by blast
  then show ?thesis unfolding m .
qed

lemma set_trading_dates:
  "set (trading_dates cfg pd) = {d \<in> set (all_dates pd). start_date cfg \<le> d \<and> d \<le> end_date cfg}"
  by (auto simp: trading_dates_def)

lemma trading_dates_sorted_distinct:
  "sorted (trading_dates cfg pd) \<and> distinct (trading_dates cfg pd)"
  by (simp add: trading_dates_def all_dates_def sorted_wrt_filter)

lemma process_tickers_Process:
  "Process_ticker t d p \<in> set (process_tickers pd d' ts) \<longleftrightarrow>
     d = d' \<and> t \<in> set ts \<and> (\<exists>series. map_of pd t = Some series \<and> map_of series d = Some (Some p)) \<and> 0 < p"
proof (induction ts)
  case Nil
  then show ?case by simp
next
  case (Cons a ts)
  show ?case
  proof (cases "map_of pd a")
    case None
    with Cons show ?thesis by auto
  next
    case (Some series)
    note s = this
    show ?thesis
    proof (cases "map_of series d'")
      case None
      with s Cons show ?thesis by auto
    next
      case (Some v)
      note v = this
      show ?thesis
      proof (cases v)
        case None
        with s v Cons show ?thesis by auto
      next
        case (Some q)
        with s v Cons show ?thesis by (cases "0 < q") auto
      qed
    qed
  qed
qed

lemma process_tickers_Daily: "Daily_metrics d \<notin> set (process_tickers pd d' ts)"
  by (induction ts) (auto split: option.splits)

lemma process_days_Process:
  "Process_ticker t d p \<in> set (process_days cfg pd days) \<longleftrightarrow>
     d \<in> set days \<and> t \<in> set (tickers cfg)
     \<and> (\<exists>series. map_of pd t = Some series \<and> map_of series d = Some (Some p)) \<and> 0 < p"
  by (induction days) (auto simp: process_tickers_Process)

lemma process_days_Daily:
  "Daily_metrics d \<in> set (process_days cfg pd days) \<longleftrightarrow> d \<in> set days"
  by (induction days) (auto simp: process_tickers_Daily)

text \<open>
  Claim C8, as the code has it. When every ticker loads and the run gets as far as the daily
  loop, the days visited are the days within [start\_date, end\_date] that occur in the
  series of at least one configured ticker (the union of the series' days), and on a
  visited day a ticker is processed exactly when that day is in its own series with a
  positive, non-missing close price.
\<close>

theorem run_backtest_steps_union_of_days:
  assumes "run_backtest_steps load cfg = Inr (Some steps)"
  shows "(Daily_metrics d \<in> set steps \<longleftrightarrow>
            start_date cfg \<le> d \<and> d \<le> end_date cfg
            \<and> (\<exists>t \<in> set (tickers cfg). \<exists>series. load t = Some series \<and> d \<in> fst ` set series))
         \<and> (Process_ticker t d p \<in> set steps \<longleftrightarrow>
            start_date cfg \<le> d \<and> d \<le> end_date cfg \<and> t \<in> set (tickers cfg)
            \<and> (\<exists>series. load t = Some series \<and> map_of series d = Some (Some p)) \<and> 0 < p)"
proof -
  from assms obtain pd where pd: "load_price_data load (tickers cfg) [] = Some pd"
    and steps: "steps = process_days cfg pd (trading_dates cfg pd)"
    by (auto simp: run_backtest_steps_def Let_def split: option.splits if_splits)
  from load_price_data_Some [OF pd] have dist: "distinct (map fst pd)"
    and look: "\<And>t. map_of pd t = (if t \<in> set (tickers cfg) then load t else None)"
    by simp_all
  have days: "\<And>d. d \<in> set (trading_dates cfg pd) \<longleftrightarrow>
      start_date cfg \<le> d \<and> d \<le> end_date cfg
      \<and> (\<exists>t \<in> set (tickers cfg). \<exists>series. load t = Some series \<and> d \<in> fst ` set series)"
    unfolding set_trading_dates using all_dates_map_of [OF dist]
    by (auto simp: look split: if_splits)
  have daily: "Daily_metrics d \<in> set steps \<longleftrightarrow>
            start_date cfg \<le> d \<and> d \<le> end_date cfg
            \<and> (\<exists>t \<in> set (tickers cfg). \<exists>series. load t = Some series \<and> d \<in> fst ` set series)"
    unfolding steps process_days_Daily by (rule days)
  have "\<And>series. map_of series d = Some (Some p) \<Longrightarrow> d \<in> fst ` set series"
    by (metis domI dom_map_of_conv_image_fst)
  then have proc: "Process_ticker t d p \<in> set steps \<longleftrightarrow>
            start_date cfg \<le> d \<and> d \<le> end_date cfg \<and> t \<in> set (tickers cfg)
            \<and> (\<exists>series. load t = Some series \<and> map_of series d = Some (Some p)) \<and> 0 < p"
    unfolding steps process_days_Process days look
    by (cases "t \<in> set (tickers cfg)") (simp_all, blast)
  from daily proc show ?thesis by blast
qed

lemma example_price_data:
  "load_price_data example_load (tickers example_backtest) [] =
     Some [(''aa'', [(1, Some 10), (2, Some 11)]), (''bb'', [(1, Some 20)])]"
  by (simp add: example_load_def example_backtest_def)

lemma example_days:
  "trading_dates example_backtest [(''aa'', [(1, Some 10), (2, Some 11)]), (''bb'', [(1, Some 20)])] = [1, 2]"
  by (simp add: trading_dates_def all_dates_def example_backtest_def)

lemma example_steps:
  "run_backtest_steps example_load example_backtest =
     Inr (Some [Process_ticker ''aa'' 1 10, Process_ticker ''bb'' 1 20, Daily_metrics 1,
                Process_ticker ''aa'' 2 11, Daily_metrics 2])"
  unfolding run_backtest_steps_def example_price_data
  by (simp add: example_days) (simp add: example_backtest_def)

text \<open>In the example day 2 is visited, though only one of the two series has it.\<close>

theorem run_backtest_steps_witness:
  "Daily_metrics 2 \<in> set [Process_ticker ''aa'' 1 10, Process_ticker ''bb'' 1 20, Daily_metrics 1,
                Process_ticker ''aa'' 2 11, Daily_metrics 2]
   \<and> Process_ticker ''bb'' 2 11 \<notin> set [Process_ticker ''aa'' 1 10, Process_ticker ''bb'' 1 20,
                Daily_metrics 1, Process_ticker ''aa'' 2 11, Daily_metrics 2]"
  using run_backtest_steps_union_of_days [OF example_steps, of 2 "''bb''" 11]
  by simp

text \<open>
  Claim C8 as stated fails: day 2 is absent from the series of ticker bb, and it is
  processed for ticker aa.
\<close>

theorem run_backtest_steps_intersection_counterexample:
  "example_load ''bb'' = Some [(1, Some 20)]
   \<and> run_backtest_steps example_load example_backtest =
     Inr (Some [Process_ticker ''aa'' 1 10, Process_ticker ''bb'' 1 20, Daily_metrics 1,
                Process_ticker ''aa'' 2 11, Daily_metrics 2])"
  unfolding run_backtest_steps_def example_price_data
  by (simp add: example_days) (simp add: example_backtest_def example_load_def)

section \<open>Per-ticker trade metrics\<close>


text \<open>All entries of the per-ticker return list are the same number.\<close>

lemma ticker_trade_returns_all_equal:
  "\<exists>c. \<forall>r \<in> set (ticker_trade_returns ticker_trades). r = c"
  by (auto simp: ticker_trade_returns_def Let_def)




section \<open>The ledger invariant and the cash balance\<close>































section \<open>Orders that exceed the available cash\<close>





section \<open>History snapshots and the live ledger\<close>

lemmas sim_defs = execute_call_def execute_trade_def execute_buy_def execute_buy_commit_def
  execute_sell_def execute_sell_commit_def update_portfolio_state_def
  create_evaluation_portfolio_state_def new_PortfolioState_def create_trade_record_def
  check_cash_availability_def calculate_position_size_def py_int_def
  new_PortfolioSimulator_def alloc_dict_def alloc_obj_def empty_store_def default_config_def
  default_world_def positions_value_def dict_values_def new_Position_def add_quantity_def
  update_price_def reduce_quantity_def snapshot_positions_def update_prices_def Let_def

lemma world_after_buy_eq:
  "world_after_buy =
     (\<lparr>config = default_config, sim_initial_capital = 100000, cash = 463946 / 5, positions = 0,
       trade_history = [record_of_buy], portfolio_history = [state_after_buy],
       current_state = state_after_buy\<rparr>,
      \<lparr>dicts = (\<lambda>_. [])(0 := [(''aa'', 0)]),
       objs = (\<lambda>_. new_Position [] 0 0 0)(0 := position_aa 144 50 0),
       next_dict = 1, next_obj = 1\<rparr>)"
  by (simp add: world_after_buy_def sim_defs buy_aa_def state_after_buy_def record_of_buy_def position_aa_def)

lemma first_snapshot_eq: "first_snapshot = state_after_buy"
  by (simp add: first_snapshot_def world_after_buy_eq)

lemma world_after_update_snapshot:
  "hd (portfolio_history (fst world_after_update)) = first_snapshot
   \<and> snapshot_positions (snd world_after_update) first_snapshot = [(''aa'', position_aa 144 60 1440)]"
  unfolding world_after_update_def world_after_buy_eq first_snapshot_eq
  by (simp add: update_prices_def update_portfolio_state_def create_evaluation_portfolio_state_def
      new_PortfolioState_def positions_value_def dict_values_def update_price_def
      snapshot_positions_def Let_def state_after_buy_def position_aa_def default_config_def)

lemma world_after_second_buy_snapshot:
  "hd (portfolio_history (fst world_after_second_buy)) = first_snapshot
   \<and> snapshot_positions (snd world_after_second_buy) first_snapshot = [(''aa'', position_aa 287 50 0)]"
  unfolding world_after_second_buy_def world_after_buy_eq first_snapshot_eq
  by (simp add: sim_defs buy_aa_def state_after_buy_def position_aa_def)

text \<open>
  Claim C9 fails on the code. After a first BUY of 144 shares at 50 the history holds one
  snapshot; read at that moment it shows 144 shares marked at 50. After a later price update
  to 60 the same snapshot (its own fields unchanged, total value still 99989.2) shows the
  position marked at 60 with an unrealized gain of 1440; after a second BUY instead it shows
  287 shares. The snapshot's position map is the live dictionary, not a copy.
\<close>

theorem snapshot_aliases_live_positions:
  "portfolio_history (fst world_after_buy) = [first_snapshot]
   \<and> ps_total_value first_snapshot = 499946 / 5
   \<and> snapshot_positions (snd world_after_buy) first_snapshot = [(''aa'', position_aa 144 50 0)]
   \<and> hd (portfolio_history (fst world_after_update)) = first_snapshot
   \<and> snapshot_positions (snd world_after_update) first_snapshot
       = [(''aa'', position_aa 144 60 1440)]
   \<and> hd (portfolio_history (fst world_after_second_buy)) = first_snapshot
   \<and> snapshot_positions (snd world_after_second_buy) first_snapshot
       = [(''aa'', position_aa 287 50 0)]"
proof -
  have "portfolio_history (fst world_after_buy) = [first_snapshot]"
    by (simp add: first_snapshot_eq world_after_buy_eq)
  moreover have "ps_total_value first_snapshot = 499946 / 5"
    by (simp add: first_snapshot_eq state_after_buy_def)
  moreover have "snapshot_positions (snd world_after_buy) first_snapshot
      = [(''aa'', position_aa 144 50 0)]"
    by (simp add: first_snapshot_eq world_after_buy_eq snapshot_positions_def state_after_buy_def)
  ultimately show ?thesis
    using world_after_update_snapshot world_after_second_buy_snapshot by simp
qed

end
